theory Spec2Isabelle
  imports Main
begin

section \<open>Levels\<close>

text \<open>
  \<open>type Level = slog.Level\<close>, a Go \<open>int\<close>. The logger stores and compares levels; the
  only arithmetic on one is the distance to the named level below it in \<open>Level.String\<close>,
  which cannot overflow, so the unbounded \<open>int\<close> stands for the machine integer. The
  values of the four \<open>slog\<close> constants are the ones the source's comments give.
\<close>

type_synonym Level = int

definition LevelDebug :: Level where
  "LevelDebug = -4"

definition LevelTrace :: Level where
  "LevelTrace = -2"

definition LevelInfo :: Level where
  "LevelInfo = 0"

definition LevelWarn :: Level where
  "LevelWarn = 4"

definition LevelError :: Level where
  "LevelError = 8"

definition LevelIn :: "Level list" where
  "LevelIn = [LevelDebug, LevelTrace, LevelInfo, LevelWarn, LevelError]"

section \<open>What the logger uses of the Go library\<close>

text \<open>
  The logger is a decorator over Go's \<open>log/slog\<close>, and it calls \<open>context\<close>, \<open>fmt\<close>,
  \<open>runtime\<close> and \<open>time\<close>. None of these is in the sources; this section models what the
  source calls of them, as far as the logger depends on it.
\<close>

subsection \<open>Panics and errors\<close>

datatype panic =
  InterfaceConversion \<comment> \<open>a type assertion \<open>x.(T)\<close> on a value that is not a \<open>T\<close>\<close>
  | NilParentContext \<comment> \<open>\<open>context.WithValue\<close> on a nil parent\<close>
  | NilDereference \<comment> \<open>a field read through a nil pointer\<close>

datatype error = WriteError string

subsection \<open>Attributes\<close>

text \<open>
  Modelled from the spec: the attached key/value attributes of a record (\<open>slog.Attr\<close> and
  \<open>slog.Value\<close>, not in the sources), by kind. \<open>LevelAny\<close> is a value of kind Any that holds a
  \<open>slog.Level\<close> (what \<open>slog.Any(key, level)\<close> builds), \<open>SourceAny\<close> one that holds the
  \<open>*slog.Source\<close> of a program counter. Group values and \<open>LogValuer\<close>s are not
  modelled.
\<close>

datatype Value =
  StringValue string
  | Int64Value int
  | BoolValue bool
  | TimeValue nat
  | LevelAny Level
  | SourceAny nat

datatype Attr = Attr (Key: string) (Val: Value)

definition TimeKey :: string where
  "TimeKey = ''time''"

definition LevelKey :: string where
  "LevelKey = ''level''"

definition MessageKey :: string where
  "MessageKey = ''msg''"

definition SourceKey :: string where
  "SourceKey = ''source''"

subsection \<open>\<open>Level.String\<close>\<close>

text \<open>
  Modelled from the spec: the standard names of the levels (\<open>Level.String\<close> of \<open>log/slog\<close>,
  not in the sources). \<open>slog\<close> names a level after the nearest named level below it
  (\<open>DEBUG\<close>, \<open>INFO\<close>, \<open>WARN\<close>, \<open>ERROR\<close>; \<open>DEBUG\<close> for everything below Info), with the
  signed distance when it is not zero (\<open>fmt.Sprintf("%s%+d", base, val)\<close>).
\<close>

fun decimal :: "nat \<Rightarrow> string" where
  "decimal n =
     (if n < 10 then [''0123456789'' ! n]
      else decimal (n div 10) @ [''0123456789'' ! (n mod 10)])"

declare decimal.simps [simp del]

definition signed_decimal :: "int \<Rightarrow> string" where
  "signed_decimal v = (if v < 0 then ''-'' @ decimal (nat (- v)) else ''+'' @ decimal (nat v))"

definition str :: "string \<Rightarrow> Level \<Rightarrow> string" where
  "str base val = (if val = 0 then base else base @ signed_decimal val)"

definition Level_String :: "Level \<Rightarrow> string" where
  "Level_String l =
     (if l < LevelInfo then str ''DEBUG'' (l - LevelDebug)
      else if l < LevelWarn then str ''INFO'' (l - LevelInfo)
      else if l < LevelError then str ''WARN'' (l - LevelWarn)
      else str ''ERROR'' (l - LevelError))"

subsection \<open>Contexts\<close>

text \<open>
  Modelled from the spec: the context a logger is attached to and looked up in (Go's
  \<open>context\<close>, not in the sources). A \<open>context.Context\<close> is the background context or a
  parent extended by one key and
  value; cancellation and deadlines do not change a lookup and are left out. A key of the
  package's unexported type \<open>logContextKey\<close> is equal to no key of another type. A nil
  context is \<open>None\<close>; \<open>context.WithValue\<close> panics on a nil parent.
\<close>

type_synonym addr = nat

datatype ctx_key =
  logContextKey int
  | foreignKey string

datatype ctx_val =
  LoggerPtr addr \<comment> \<open>a \<open>*SlogLogger\<close>\<close>
  | foreignVal string

datatype Context =
  Background
  | WithValue Context ctx_key ctx_val

fun Context_Value :: "Context \<Rightarrow> ctx_key \<Rightarrow> ctx_val option" where
  "Context_Value Background k = None"
| "Context_Value (WithValue parent k' v) k = (if k = k' then Some v else Context_Value parent k)"

definition context_WithValue :: "Context option \<Rightarrow> ctx_key \<Rightarrow> ctx_val \<Rightarrow> panic + Context" where
  "context_WithValue parent k v =
     (case parent of None \<Rightarrow> Inl NilParentContext | Some c \<Rightarrow> Inr (WithValue c k v))"

subsection \<open>Records, handlers and the state\<close>

text \<open>
  Modelled from the spec: the record of one log event (\<open>slog.Record\<close>, not in the sources),
  carrying timestamp, level, message, call site and attached attributes.
\<close>

record Record =
  Record_Time :: nat
  Record_Message :: string
  Record_Level :: Level
  Record_PC :: nat
  Record_attrs :: "Attr list"

definition NewRecord :: "nat \<Rightarrow> Level \<Rightarrow> string \<Rightarrow> nat \<Rightarrow> Record" where
  "NewRecord t level msg pc =
     \<lparr>Record_Time = t, Record_Message = msg, Record_Level = level, Record_PC = pc,
      Record_attrs = []\<rparr>"

text \<open>
  \<open>Record.Add\<close> (of \<open>log/slog\<close>). The arguments are taken as attributes already (\<open>slog.Attr\<close> values, which
  \<open>Add\<close> appends as they are); the pairing of loose keys and values is not modelled.
\<close>

definition Record_Add :: "Record \<Rightarrow> Attr list \<Rightarrow> Record" where
  "Record_Add r args = r\<lparr>Record_attrs := Record_attrs r @ args\<rparr>"

text \<open>
  Modelled from the spec: the handler's options (\<open>slog.HandlerOptions\<close>, not in the sources)
  with the three fields \<open>New\<close> sets. \<open>Level\<close> is the address of the \<open>slog.LevelVar\<close> the
  handler reads its minimum level from.
\<close>

record HandlerOptions =
  opts_AddSource :: bool
  opts_Level :: addr
  opts_ReplaceAttr :: "string list \<Rightarrow> Attr \<Rightarrow> panic + Attr"

record JSONHandler =
  handler_opts :: HandlerOptions

text \<open>\<open>slog.Logger\<close>; it is never assigned to after \<open>slog.New\<close>, so \<open>*slog.Logger\<close> is held by value.\<close>

record Logger =
  logger_handler :: JSONHandler

record SlogLogger =
  SlogLogger_l :: Logger
  SlogLogger_lvl :: addr

text \<open>
  What a call can observe or change outside its arguments: the calls into \<open>fmt\<close>,
  \<open>runtime\<close> and \<open>time\<close>, the dispatch of a record to the handler, and the line the
  handler writes (the attributes after replacement, in order).
\<close>

datatype event =
  EvSprintf string "Value list"
  | EvCallers nat
  | EvNow
  | EvHandle Context Record
  | EvWrite "Attr list"

text \<open>
  The state: the \<open>slog.LevelVar\<close> cells and the \<open>SlogLogger\<close> structs by address, the next
  free address, and the events so far, oldest first.
\<close>

record world =
  levelVars :: "addr \<Rightarrow> Level"
  loggers :: "addr \<Rightarrow> SlogLogger option"
  next_addr :: addr
  events :: "event list"

text \<open>What the environment answers to one call: the clock, the stack, \<open>fmt\<close> and standard output.\<close>

record env =
  env_now :: nat
  env_callers :: "nat \<Rightarrow> nat"
  env_sprintf :: "string \<Rightarrow> Value list \<Rightarrow> string"
  env_stdout :: "Attr list \<Rightarrow> error option"

definition emit :: "event \<Rightarrow> world \<Rightarrow> world" where
  "emit e w = w\<lparr>events := events w @ [e]\<rparr>"

definition LevelVar_Set :: "addr \<Rightarrow> Level \<Rightarrow> world \<Rightarrow> world" where
  "LevelVar_Set a level w = w\<lparr>levelVars := (levelVars w)(a := level)\<rparr>"

definition LevelVar_Level :: "addr \<Rightarrow> world \<Rightarrow> Level" where
  "LevelVar_Level a w = levelVars w a"

text \<open>
  Modelled from the spec: the facility's enablement rule (\<open>JSONHandler.Enabled\<close> of
  \<open>log/slog\<close>, not in the sources). The threshold is the minimum severity a record must
  meet: a level is enabled when it is at least the handler's minimum level, which the
  handler reads from the level variable of its options.
\<close>

definition JSONHandler_Enabled :: "JSONHandler \<Rightarrow> Context \<Rightarrow> Level \<Rightarrow> world \<Rightarrow> bool" where
  "JSONHandler_Enabled h ctx level w =
     (let minLevel = LevelVar_Level (opts_Level (handler_opts h)) w in level \<ge> minLevel)"

text \<open>\<open>slog.Logger.Enabled\<close>, which replaces a nil context by the background context.\<close>

definition Logger_Enabled :: "Logger \<Rightarrow> Context option \<Rightarrow> Level \<Rightarrow> world \<Rightarrow> bool" where
  "Logger_Enabled lg ctx level w =
     JSONHandler_Enabled (logger_handler lg) (case ctx of None \<Rightarrow> Background | Some c \<Rightarrow> c) level w"

text \<open>
  Modelled from the spec: the handler's dispatch (\<open>JSONHandler.Handle\<close> of \<open>log/slog\<close>, not
  in the sources). The spec gives the fields of a written line (timestamp, level label,
  call site, message, attached attributes) and the write failure as the handler's error.
  By the contract of \<open>HandlerOptions.ReplaceAttr\<close> the function is called on every
  attribute before it is written: on the built-in ones (the time when it is not zero,
  the level as \<open>slog.Any(LevelKey, level)\<close>, the source when \<open>AddSource\<close> is set, the
  message) and then on the record's own, each with no group. The line is written last
  and the write's error is returned; a panic of \<open>ReplaceAttr\<close> is not recovered. That the
  handler leaves an empty source (program counter 0) out of the line is not modelled.
\<close>

definition builtins :: "JSONHandler \<Rightarrow> Record \<Rightarrow> Attr list" where
  "builtins h r =
     (if Record_Time r = 0 then [] else [Attr TimeKey (TimeValue (Record_Time r))])
     @ [Attr LevelKey (LevelAny (Record_Level r))]
     @ (if opts_AddSource (handler_opts h) then [Attr SourceKey (SourceAny (Record_PC r))] else [])
     @ [Attr MessageKey (StringValue (Record_Message r))]"

fun appendAttrs :: "(string list \<Rightarrow> Attr \<Rightarrow> panic + Attr) \<Rightarrow> Attr list \<Rightarrow> panic + Attr list" where
  "appendAttrs rep [] = Inr []"
| "appendAttrs rep (a # as) =
     (case rep [] a of
        Inl p \<Rightarrow> Inl p
      | Inr a' \<Rightarrow> (case appendAttrs rep as of Inl p \<Rightarrow> Inl p | Inr as' \<Rightarrow> Inr (a' # as')))"

definition JSONHandler_Handle ::
  "env \<Rightarrow> JSONHandler \<Rightarrow> Context \<Rightarrow> Record \<Rightarrow> world \<Rightarrow> (panic + error option) \<times> world" where
  "JSONHandler_Handle e h ctx r w =
     (let w1 = emit (EvHandle ctx r) w in
      case appendAttrs (opts_ReplaceAttr (handler_opts h)) (builtins h r @ Record_attrs r) of
        Inl p \<Rightarrow> (Inl p, w1)
      | Inr line \<Rightarrow> (Inr (env_stdout e line), emit (EvWrite line) w1))"

section \<open>The logger\<close>

text \<open>The key the logger is stored under in a context: \<open>defaultLogContextKey logContextKey = iota\<close>.\<close>

definition defaultLogContextKey :: ctx_key where
  "defaultLogContextKey = logContextKey 0"

text \<open>The \<open>ReplaceAttr\<close> closure of \<open>New\<close>; the type assertion panics on a value that holds no level.\<close>

definition ReplaceAttr :: "string list \<Rightarrow> Attr \<Rightarrow> panic + Attr" where
  "ReplaceAttr groups a =
     (if Key a = LevelKey then
        (case Val a of
           LevelAny level \<Rightarrow>
             (let levelLabel = Level_String level;
                  levelLabel = (if level = LevelTrace then ''TRACE'' else levelLabel)
              in Inr (Attr (Key a) (StringValue levelLabel)))
         | _ \<Rightarrow> Inl InterfaceConversion)
      else Inr a)"

text \<open>
  \<open>New\<close> allocates the level variable, sets it, builds the handler over its address and
  allocates the logger; it returns the logger's address.
\<close>

definition New :: "Level \<Rightarrow> world \<Rightarrow> addr \<times> world" where
  "New level w =
     (let lvl = next_addr w;
          w1 = LevelVar_Set lvl level (w\<lparr>next_addr := lvl + 1\<rparr>);
          sl = \<lparr>logger_handler = \<lparr>handler_opts =
                 \<lparr>opts_AddSource = True, opts_Level = lvl, opts_ReplaceAttr = ReplaceAttr\<rparr>\<rparr>\<rparr>;
          p = next_addr w1
      in (p, w1\<lparr>loggers := (loggers w1)(p \<mapsto> \<lparr>SlogLogger_l = sl, SlogLogger_lvl = lvl\<rparr>),
                 next_addr := p + 1\<rparr>))"

text \<open>
  Every method reads the fields of its receiver at once and none assigns one, so a method
  is modelled on the struct its receiver points to; \<open>WithContext\<close> and \<open>clone\<close>, where the
  address itself matters, take the address.
\<close>

definition SetLevel :: "SlogLogger \<Rightarrow> Level \<Rightarrow> world \<Rightarrow> world" where
  "SetLevel l level w = LevelVar_Set (SlogLogger_lvl l) level w"

definition Enabled :: "SlogLogger \<Rightarrow> world \<Rightarrow> bool" where
  "Enabled l w =
     Logger_Enabled (SlogLogger_l l) (Some Background) (LevelVar_Level (SlogLogger_lvl l) w) w"

fun GetLogLevel_range :: "SlogLogger \<Rightarrow> world \<Rightarrow> Level list \<Rightarrow> Level \<Rightarrow> Level" where
  "GetLogLevel_range l w [] currentLevel = currentLevel"
| "GetLogLevel_range l w (level # rest) currentLevel =
     (let r = Logger_Enabled (SlogLogger_l l) (Some Background) level w in
      if r then level else GetLogLevel_range l w rest currentLevel)"

definition GetLogLevel :: "SlogLogger \<Rightarrow> world \<Rightarrow> Level" where
  "GetLogLevel l w = GetLogLevel_range l w LevelIn (-10)"

definition WithContext :: "addr \<Rightarrow> Context option \<Rightarrow> panic + Context" where
  "WithContext l ctx = context_WithValue ctx defaultLogContextKey (LoggerPtr l)"

definition clone :: "addr \<Rightarrow> world \<Rightarrow> panic + addr \<times> world" where
  "clone l w =
     (case loggers w l of
        None \<Rightarrow> Inl NilDereference
      | Some c \<Rightarrow>
          (let q = next_addr w
           in Inr (q, w\<lparr>loggers := (loggers w)(q \<mapsto> c), next_addr := q + 1\<rparr>)))"

datatype outcome =
  Returns
  | Panics panic

definition log ::
  "env \<Rightarrow> SlogLogger \<Rightarrow> Context option \<Rightarrow> Level \<Rightarrow> string \<Rightarrow> Attr list \<Rightarrow> world \<Rightarrow> outcome \<times> world" where
  "log e l ctx level msg args w =
     (if \<not> Logger_Enabled (SlogLogger_l l) ctx level w then (Returns, w)
      else
        (let w1 = emit (EvCallers 4) w;
             pc = env_callers e 4;
             w2 = emit EvNow w1;
             r = NewRecord (env_now e) level msg pc;
             r = Record_Add r args;
             ctx = (case ctx of None \<Rightarrow> Background | Some c \<Rightarrow> c)
         in case JSONHandler_Handle e (logger_handler (SlogLogger_l l)) ctx r w2 of
              (Inl p, w3) \<Rightarrow> (Panics p, w3)
            | (Inr err, w3) \<Rightarrow> (Returns, w3)))"

definition Log ::
  "env \<Rightarrow> SlogLogger \<Rightarrow> Context option \<Rightarrow> Level \<Rightarrow> string \<Rightarrow> Attr list \<Rightarrow> world \<Rightarrow> outcome \<times> world" where
  "Log e l ctx level msg args w = log e l ctx level msg args w"

definition Info :: "env \<Rightarrow> SlogLogger \<Rightarrow> string \<Rightarrow> Attr list \<Rightarrow> world \<Rightarrow> outcome \<times> world" where
  "Info e l msg args w = Log e l (Some Background) LevelInfo msg args w"

text \<open>The arguments of a call are evaluated before it: \<open>fmt.Sprintf\<close> runs, then \<open>Log\<close>.\<close>

definition Infof :: "env \<Rightarrow> SlogLogger \<Rightarrow> string \<Rightarrow> Value list \<Rightarrow> world \<Rightarrow> outcome \<times> world" where
  "Infof e l format args w =
     (let w1 = emit (EvSprintf format args) w;
          msg = env_sprintf e format args
      in Log e l (Some Background) LevelInfo msg [] w1)"

definition InfoContext ::
  "env \<Rightarrow> SlogLogger \<Rightarrow> Context option \<Rightarrow> string \<Rightarrow> Attr list \<Rightarrow> world \<Rightarrow> outcome \<times> world" where
  "InfoContext e l ctx msg args w = Log e l ctx LevelInfo msg args w"

definition Trace :: "env \<Rightarrow> SlogLogger \<Rightarrow> string \<Rightarrow> Attr list \<Rightarrow> world \<Rightarrow> outcome \<times> world" where
  "Trace e l msg args w = Log e l (Some Background) LevelTrace msg args w"

definition Warn :: "env \<Rightarrow> SlogLogger \<Rightarrow> string \<Rightarrow> Attr list \<Rightarrow> world \<Rightarrow> outcome \<times> world" where
  "Warn e l msg args w = Log e l (Some Background) LevelWarn msg args w"

definition Error :: "env \<Rightarrow> SlogLogger \<Rightarrow> string \<Rightarrow> Attr list \<Rightarrow> world \<Rightarrow> outcome \<times> world" where
  "Error e l msg args w = Log e l (Some Background) LevelError msg args w"

section \<open>Calls at a call site\<close>

text \<open>
  Modelled from the spec: the capture of the call site, "skipping a fixed number of stack
  frames" (\<open>runtime.Callers\<close>, not in the sources). A stack is the list of the program
  counters of its frames, from the frame that calls \<open>runtime.Callers\<close> outwards; the
  program counter of a frame of the logger is the source line of the call it makes. Skip
  1 is the first frame of the list (skip 0 is \<open>runtime.Callers\<close> itself, which is not
  modelled); when the stack is shorter than the skip nothing is stored and the program
  counter stays 0.
\<close>

definition runtime_Callers :: "nat list \<Rightarrow> nat \<Rightarrow> nat" where
  "runtime_Callers st skip = (if 0 < skip \<and> skip \<le> length st then st ! (skip - 1) else 0)"









section \<open>Observations\<close>

text \<open>The program counter of the \<open>i\<close>-th frame of a stack, 0 when the stack is shorter.\<close>

definition frame :: "nat list \<Rightarrow> nat \<Rightarrow> nat" where
  "frame st i = (if i < length st then st ! i else 0)"

text \<open>
  The struct \<open>New\<close> builds over the level variable at \<open>lvl\<close>, and the property of it the
  gating rests on: the handler reads its minimum level from the variable \<open>SetLevel\<close> writes.
\<close>

definition newLogger :: "addr \<Rightarrow> SlogLogger" where
  "newLogger lvl =
     \<lparr>SlogLogger_l = \<lparr>logger_handler = \<lparr>handler_opts =
        \<lparr>opts_AddSource = True, opts_Level = lvl, opts_ReplaceAttr = ReplaceAttr\<rparr>\<rparr>\<rparr>,
      SlogLogger_lvl = lvl\<rparr>"

definition shares_LevelVar :: "SlogLogger \<Rightarrow> bool" where
  "shares_LevelVar l =
     (opts_Level (handler_opts (logger_handler (SlogLogger_l l))) = SlogLogger_lvl l)"

text \<open>The threshold of a logger: the value its level variable holds.\<close>

definition threshold :: "SlogLogger \<Rightarrow> world \<Rightarrow> Level" where
  "threshold l w = LevelVar_Level (SlogLogger_lvl l) w"

text \<open>The events a call added, and the records dispatched to the handler among some events.\<close>

definition new_events :: "world \<Rightarrow> world \<Rightarrow> event list" where
  "new_events w w' = drop (length (events w)) (events w')"

fun dispatched :: "event list \<Rightarrow> (Context \<times> Record) list" where
  "dispatched [] = []"
| "dispatched (EvHandle ctx r # es) = (ctx, r) # dispatched es"
| "dispatched (_ # es) = dispatched es"

fun formatted :: "event list \<Rightarrow> (string \<times> Value list) list" where
  "formatted [] = []"
| "formatted (EvSprintf f args # es) = (f, args) # formatted es"
| "formatted (_ # es) = formatted es"

text \<open>An attribute whose value holds a \<open>slog.Level\<close>: the ones the type assertion accepts.\<close>

definition holds_level :: "Attr \<Rightarrow> bool" where
  "holds_level a = (case Val a of LevelAny _ \<Rightarrow> True | _ \<Rightarrow> False)"

text \<open>
  An empty state, and an environment whose clock reads 7, whose writes succeed and whose
  \<open>fmt.Sprintf\<close> returns the format as it is (as it does for a format with no verb and no
  argument).
\<close>

definition world0 :: world where
  "world0 = \<lparr>levelVars = (\<lambda>_. 0), loggers = (\<lambda>_. None), next_addr = 1, events = []\<rparr>"

definition env0 :: env where
  "env0 = \<lparr>env_now = 7, env_callers = (\<lambda>_. 0), env_sprintf = (\<lambda>f _. f),
            env_stdout = (\<lambda>_. None)\<rparr>"

section \<open>Basic facts\<close>

lemmas Level_defs = LevelDebug_def LevelTrace_def LevelInfo_def LevelWarn_def LevelError_def

lemmas Key_defs = TimeKey_def LevelKey_def MessageKey_def SourceKey_def

lemma New_eq:
  "New level w =
     (next_addr w + 1,
      w\<lparr>levelVars := (levelVars w)(next_addr w := level),
        loggers := (loggers w)(next_addr w + 1 \<mapsto> newLogger (next_addr w)),
        next_addr := next_addr w + 2\<rparr>)"
  by (simp add: New_def LevelVar_Set_def newLogger_def Let_def)

lemma shares_newLogger: "shares_LevelVar (newLogger a)"
  by (simp add: shares_LevelVar_def newLogger_def)

lemma threshold_SetLevel [simp]: "threshold l (SetLevel l T w) = T"
  by (simp add: threshold_def SetLevel_def LevelVar_Set_def LevelVar_Level_def)

lemma events_emit [simp]: "events (emit ev w) = events w @ [ev]"
  by (simp add: emit_def)

lemma new_events_emit [simp]: "new_events w (emit ev w) = [ev]"
  by (simp add: new_events_def)

lemma new_events_append: "events w' = events w @ xs \<Longrightarrow> new_events w w' = xs"
  by (simp add: new_events_def)

lemma dispatched_append: "dispatched (xs @ ys) = dispatched xs @ dispatched ys"
  by (induction xs rule: dispatched.induct) simp_all

text \<open>The enablement rule, for a logger whose handler reads the logger's own level variable.\<close>

lemma Logger_Enabled_iff:
  "shares_LevelVar l \<Longrightarrow> Logger_Enabled (SlogLogger_l l) ctx L w = (threshold l w \<le> L)"
  by (simp add: Logger_Enabled_def JSONHandler_Enabled_def shares_LevelVar_def threshold_def)

lemma Logger_Enabled_emit [simp]:
  "Logger_Enabled lg ctx L (emit ev w) = Logger_Enabled lg ctx L w"
  by (simp add: Logger_Enabled_def JSONHandler_Enabled_def LevelVar_Level_def emit_def)

text \<open>
  \<open>New\<close> stores the struct at the address it returns; its handler reads the logger's own
  level variable, which holds the level \<open>New\<close> was given.
\<close>

lemma New_logger:
  "loggers (snd (New level w)) (fst (New level w)) = Some (newLogger (next_addr w)) \<and>
   shares_LevelVar (newLogger (next_addr w)) \<and>
   threshold (newLogger (next_addr w)) (snd (New level w)) = level \<and>
   fst (New level w) < next_addr (snd (New level w))"
  by (simp add: New_eq shares_LevelVar_def threshold_def LevelVar_Level_def newLogger_def)

text \<open>The logger that \<open>New\<close> builds in the empty state: its struct, address and threshold.\<close>

lemma New_world0:
  "fst (New level world0) = 2 \<and> loggers (snd (New level world0)) 2 = Some (newLogger 1) \<and>
   next_addr (snd (New level world0)) = 3 \<and> events (snd (New level world0)) = []"
  by (simp add: New_eq world0_def)

lemma threshold_New_world0: "threshold (newLogger 1) (snd (New level world0)) = level"
  by (simp add: New_eq threshold_def LevelVar_Level_def newLogger_def world0_def)

lemma Info_disabled_at_Error:
  "\<not> Logger_Enabled (SlogLogger_l (newLogger 1)) (Some Background) LevelInfo
       (snd (New LevelError world0))"
  using threshold_New_world0 [of LevelError]
  by (simp add: Logger_Enabled_iff shares_newLogger Level_defs)

lemma Info_enabled_at_Info:
  "Logger_Enabled (SlogLogger_l (newLogger 1)) (Some Background) LevelInfo
     (snd (New LevelInfo world0))"
  using threshold_New_world0 [of LevelInfo]
  by (simp add: Logger_Enabled_iff shares_newLogger)

section \<open>The level constants\<close>

text \<open>
  C9. The named levels are Debug = -4, Trace = -2, Info = 0, Warn = 4 and Error = 8, in
  strictly ascending order.
\<close>

theorem level_constants:
  "LevelDebug = -4 \<and> LevelTrace = -2 \<and> LevelInfo = 0 \<and> LevelWarn = 4 \<and> LevelError = 8 \<and>
   LevelDebug < LevelTrace \<and> LevelTrace < LevelInfo \<and> LevelInfo < LevelWarn \<and>
   LevelWarn < LevelError"
  by (simp add: Level_defs)

section \<open>Gating\<close>

lemma log_disabled:
  "\<not> Logger_Enabled (SlogLogger_l l) ctx L w \<Longrightarrow> log e l ctx L msg args w = (Returns, w)"
  by (simp add: log_def)

text \<open>
  An enabled call reads the stack and the clock and hands the handler one record, made of
  the call's level, message and attributes; whatever follows is the handler's own write.
\<close>

lemma log_enabled_events:
  assumes "Logger_Enabled (SlogLogger_l l) ctx L w"
  shows "\<exists>tl. events (snd (log e l ctx L msg args w)) =
           events w @ [EvCallers 4, EvNow,
             EvHandle (case ctx of None \<Rightarrow> Background | Some c \<Rightarrow> c)
               \<lparr>Record_Time = env_now e, Record_Message = msg, Record_Level = L,
                Record_PC = env_callers e 4, Record_attrs = args\<rparr>] @ tl \<and>
           dispatched tl = []"
  using assms
  by (simp add: log_def Let_def NewRecord_def Record_Add_def JSONHandler_Handle_def
      split: sum.splits prod.splits)

text \<open>
  C1. For every level \<open>L\<close> (the five named ones among them) and the threshold \<open>T\<close> the logger
  holds, a call of \<open>log\<close> at \<open>L\<close> dispatches a record to the handler exactly when \<open>L \<ge> T\<close>, and
  then exactly one, with the call's level, message and attributes. When \<open>L < T\<close> the call
  returns with the state unchanged: no stack or clock read, no record, no handler call.
\<close>

theorem log_dispatches_iff_enabled:
  assumes "shares_LevelVar l"
  shows "(threshold l w \<le> L \<longrightarrow>
            dispatched (new_events w (snd (log e l ctx L msg args w))) =
              [(case ctx of None \<Rightarrow> Background | Some c \<Rightarrow> c,
                \<lparr>Record_Time = env_now e, Record_Message = msg, Record_Level = L,
                 Record_PC = env_callers e 4, Record_attrs = args\<rparr>)]) \<and>
         (L < threshold l w \<longrightarrow>
            log e l ctx L msg args w = (Returns, w) \<and>
            dispatched (new_events w (snd (log e l ctx L msg args w))) = [])"
proof (cases "threshold l w \<le> L")
  case True
  then have en: "Logger_Enabled (SlogLogger_l l) ctx L w"
    using assms by (simp add: Logger_Enabled_iff)
  from log_enabled_events [OF en, of e msg args] obtain tl where
    ev: "events (snd (log e l ctx L msg args w)) =
           events w @ [EvCallers 4, EvNow,
             EvHandle (case ctx of None \<Rightarrow> Background | Some c \<Rightarrow> c)
               \<lparr>Record_Time = env_now e, Record_Message = msg, Record_Level = L,
                Record_PC = env_callers e 4, Record_attrs = args\<rparr>] @ tl"
    and tl: "dispatched tl = []"
    by blast
  show ?thesis
    using True tl by (simp add: new_events_append [OF ev] dispatched_append)
next
  case False
  then have "\<not> Logger_Enabled (SlogLogger_l l) ctx L w"
    using assms by (simp add: Logger_Enabled_iff)
  then have "log e l ctx L msg args w = (Returns, w)"
    by (rule log_disabled)
  then show ?thesis
    using False by (simp add: new_events_def)
qed

theorem log_dispatches_iff_enabled_witness:
  "shares_LevelVar (newLogger 1) \<and>
   dispatched (new_events (snd (New LevelInfo world0))
     (snd (log env0 (newLogger 1) None LevelWarn ''up'' [] (snd (New LevelInfo world0))))) =
     [(Background, \<lparr>Record_Time = 7, Record_Message = ''up'', Record_Level = LevelWarn,
                    Record_PC = 0, Record_attrs = []\<rparr>)] \<and>
   log env0 (newLogger 1) None LevelTrace ''up'' [] (snd (New LevelInfo world0)) =
     (Returns, snd (New LevelInfo world0))"
  using
    log_dispatches_iff_enabled [OF shares_newLogger, of 1 "snd (New LevelInfo world0)" LevelWarn
      env0 None "''up''" "[]"]
    log_dispatches_iff_enabled [OF shares_newLogger, of 1 "snd (New LevelInfo world0)" LevelTrace
      env0 None "''up''" "[]"]
    threshold_New_world0 [of LevelInfo]
  by (simp add: shares_newLogger Level_defs env0_def)

section \<open>The threshold\<close>

text \<open>The probe of \<open>GetLogLevel\<close>, unrolled over the five levels of \<open>LevelIn\<close>.\<close>

lemma GetLogLevel_cases:
  assumes "shares_LevelVar l"
  shows "GetLogLevel l w =
     (if threshold l w \<le> LevelDebug then LevelDebug
      else if threshold l w \<le> LevelTrace then LevelTrace
      else if threshold l w \<le> LevelInfo then LevelInfo
      else if threshold l w \<le> LevelWarn then LevelWarn
      else if threshold l w \<le> LevelError then LevelError
      else -10)"
  using assms by (simp add: GetLogLevel_def LevelIn_def Logger_Enabled_iff)

text \<open>
  C2. After \<open>SetLevel T\<close>, \<open>GetLogLevel\<close> returns the lowest level of \<open>LevelIn\<close> that is at
  least \<open>T\<close>; when \<open>T\<close> is above Error it returns -10, which is below every level of
  \<open>LevelIn\<close>.
\<close>

theorem SetLevel_then_GetLogLevel:
  assumes "shares_LevelVar l"
  shows "let g = GetLogLevel l (SetLevel l T w) in
     (T \<le> LevelError \<longrightarrow>
        g \<in> set LevelIn \<and> T \<le> g \<and> (\<forall>L\<in>set LevelIn. T \<le> L \<longrightarrow> g \<le> L)) \<and>
     (LevelError < T \<longrightarrow> g = -10 \<and> (\<forall>L\<in>set LevelIn. g < L))"
  using assms by (simp add: GetLogLevel_cases LevelIn_def Level_defs)

theorem SetLevel_then_GetLogLevel_witness:
  "shares_LevelVar (newLogger 1) \<and>
   GetLogLevel (newLogger 1) (SetLevel (newLogger 1) 1 (snd (New LevelDebug world0))) = LevelWarn \<and>
   GetLogLevel (newLogger 1) (SetLevel (newLogger 1) 9 (snd (New LevelDebug world0))) = -10"
  using
    SetLevel_then_GetLogLevel [of "newLogger 1" 1 "snd (New LevelDebug world0)"]
    SetLevel_then_GetLogLevel [of "newLogger 1" 9 "snd (New LevelDebug world0)"]
  by (auto simp add: shares_newLogger LevelIn_def Level_defs Let_def)

text \<open>
  C10. \<open>Enabled\<close> asks the handler whether the current threshold itself is enabled, so it is
  true whatever threshold \<open>SetLevel\<close> has set, for every logger whose handler reads the
  logger's level variable (as every logger \<open>New\<close> builds does).
\<close>

theorem Enabled_always_true:
  assumes "shares_LevelVar l"
  shows "Enabled l (SetLevel l T w) \<and> Enabled l w"
  using assms by (simp add: Enabled_def Logger_Enabled_iff threshold_def)

theorem Enabled_always_true_witness:
  "shares_LevelVar (newLogger 1) \<and>
   Enabled (newLogger 1) (SetLevel (newLogger 1) 100 (snd (New LevelDebug world0))) \<and>
   Enabled (newLogger 1) (snd (New LevelDebug world0))"
  using Enabled_always_true [of "newLogger 1" 100 "snd (New LevelDebug world0)"]
  by (simp add: shares_newLogger)

section \<open>\<open>clone\<close>\<close>

text \<open>
  C3. \<open>clone\<close> returns a new address that holds a copy of the struct and changes nothing
  else: the copy is equal to the original, field by field, so it holds the same handler
  and points to the same level variable. \<open>SetLevel x\<close> through the clone leaves the same
  state as \<open>SetLevel x\<close> through the logger itself; after either, the gating of the logger
  and of the clone both have threshold \<open>x\<close>, and \<open>GetLogLevel\<close> of the logger and of the
  clone are the same. A clone has no level of its own.
\<close>

theorem clone_shares_threshold:
  assumes "loggers w l = Some s" and "shares_LevelVar s" and "l < next_addr w"
  shows "\<exists>q w1 c. clone l w = Inr (q, w1) \<and> q \<noteq> l \<and>
           loggers w1 l = Some s \<and> loggers w1 q = Some c \<and>
           c = s \<and>
           SlogLogger_l c = SlogLogger_l s \<and>
           SlogLogger_lvl c = SlogLogger_lvl s \<and>
           levelVars w1 = levelVars w \<and> events w1 = events w \<and>
           SetLevel c x w1 = SetLevel s x w1 \<and>
           (\<forall>ctx L. Logger_Enabled (SlogLogger_l s) ctx L (SetLevel c x w1) = (x \<le> L)) \<and>
           (\<forall>ctx L. Logger_Enabled (SlogLogger_l c) ctx L (SetLevel s x w1) = (x \<le> L)) \<and>
           (\<forall>ctx L. Logger_Enabled (SlogLogger_l c) ctx L (SetLevel c x w1) = (x \<le> L)) \<and>
           GetLogLevel s (SetLevel c x w1) = GetLogLevel s (SetLevel s x w1) \<and>
           GetLogLevel c (SetLevel s x w1) = GetLogLevel s (SetLevel s x w1) \<and>
           GetLogLevel c (SetLevel c x w1) = GetLogLevel s (SetLevel s x w1)"
  using assms by (auto simp add: clone_def Let_def Logger_Enabled_iff)

theorem clone_shares_threshold_witness:
  "loggers (snd (New LevelInfo world0)) 2 = Some (newLogger 1) \<and>
   shares_LevelVar (newLogger 1) \<and> 2 < next_addr (snd (New LevelInfo world0)) \<and>
   (\<exists>q w1 c. clone 2 (snd (New LevelInfo world0)) = Inr (q, w1) \<and> q \<noteq> 2 \<and>
      loggers w1 q = Some c \<and> c = newLogger 1 \<and>
      SetLevel c LevelError w1 = SetLevel (newLogger 1) LevelError w1 \<and>
      Logger_Enabled (SlogLogger_l c) None LevelWarn (SetLevel (newLogger 1) LevelError w1) =
        (LevelError \<le> LevelWarn) \<and>
      GetLogLevel c (SetLevel c LevelError w1) = LevelError \<and>
      GetLogLevel (newLogger 1) (SetLevel c LevelError w1) = LevelError)"
proof -
  have a: "loggers (snd (New LevelInfo world0)) 2 = Some (newLogger 1)"
    and b: "2 < next_addr (snd (New LevelInfo world0))"
    using New_world0 [of LevelInfo] by simp_all
  have g: "GetLogLevel (newLogger 1) (SetLevel (newLogger 1) LevelError w1) = LevelError" for w1
    by (simp add: GetLogLevel_cases shares_newLogger Level_defs)
  from clone_shares_threshold [OF a shares_newLogger b, of LevelError]
  show ?thesis
    using a b shares_newLogger g by (metis (no_types, lifting))
qed

section \<open>The logger in a context\<close>

text \<open>
  C8. For every logger address and every context, \<open>WithContext\<close> returns a context in which
  the lookup of the package's key yields that same address: the logger itself, not a copy.
\<close>

theorem WithContext_yields_same_logger:
  "\<exists>c. WithContext l (Some ctx) = Inr c \<and>
        Context_Value c defaultLogContextKey = Some (LoggerPtr l)"
  by (simp add: WithContext_def context_WithValue_def)

section \<open>The convenience methods\<close>

text \<open>
  Inside one call every convenience method is a call of \<open>Log\<close> at its fixed level, in the
  environment of that call.
\<close>

lemma methods_call_Log:
  "Info e l msg args w = Log e l (Some Background) LevelInfo msg args w \<and>
   Trace e l msg args w = Log e l (Some Background) LevelTrace msg args w \<and>
   Warn e l msg args w = Log e l (Some Background) LevelWarn msg args w \<and>
   Error e l msg args w = Log e l (Some Background) LevelError msg args w \<and>
   InfoContext e l ctx msg args w = Log e l ctx LevelInfo msg args w \<and>
   Infof e l format fargs w =
     Log e l (Some Background) LevelInfo (env_sprintf e format fargs) []
       (emit (EvSprintf format fargs) w)"
  by (simp add: Info_def Trace_def Warn_def Error_def InfoContext_def Infof_def Let_def)


text \<open>
  Skip 4 passes the frames of \<open>log\<close>, \<open>Log\<close> and a convenience method and finds the method's
  call site; under a direct call of \<open>Log\<close> it passes the call site too and finds its caller.
\<close>

lemma Callers_under_method [simp]: "runtime_Callers (a # b # c # st) 4 = frame st 0"
  by (cases st) (simp_all add: runtime_Callers_def frame_def)

lemma Callers_under_Log [simp]: "runtime_Callers (a # b # st) 4 = frame st 1"
proof (cases st)
  case Nil
  then show ?thesis by (simp add: runtime_Callers_def frame_def)
next
  case (Cons c st')
  then show ?thesis by (cases st') (simp_all add: runtime_Callers_def frame_def)
qed

lemma frame_Cons [simp]: "frame (f # st) (Suc i) = frame st i"
  by (simp add: frame_def)






section \<open>\<open>Infof\<close> below the threshold\<close>

lemma Infof_disabled:
  assumes "\<not> Logger_Enabled (SlogLogger_l l) (Some Background) LevelInfo w"
  shows "Infof e l format args w = (Returns, emit (EvSprintf format args) w)"
  using assms by (simp add: Infof_def Log_def log_disabled Let_def)

text \<open>
  C4, as the code has it. \<open>Infof\<close> formats first and asks afterwards: when Info is disabled
  the call still runs \<open>fmt.Sprintf\<close> on the format and the arguments, once, and then drops
  the message; no record is dispatched and the call returns.
\<close>

theorem Infof_disabled_formats_then_returns:
  assumes "\<not> Logger_Enabled (SlogLogger_l l) (Some Background) LevelInfo w"
  shows "Infof e l format args w = (Returns, emit (EvSprintf format args) w) \<and>
         formatted (new_events w (snd (Infof e l format args w))) = [(format, args)] \<and>
         dispatched (new_events w (snd (Infof e l format args w))) = []"
  by (simp add: Infof_disabled [OF assms])

theorem Infof_disabled_formats_then_returns_witness:
  "\<not> Logger_Enabled (SlogLogger_l (newLogger 1)) (Some Background) LevelInfo
       (snd (New LevelError world0)) \<and>
   Infof env0 (newLogger 1) ''ready'' [] (snd (New LevelError world0)) =
     (Returns, emit (EvSprintf ''ready'' []) (snd (New LevelError world0))) \<and>
   dispatched (new_events (snd (New LevelError world0))
     (snd (Infof env0 (newLogger 1) ''ready'' [] (snd (New LevelError world0))))) = []"
  using
    Infof_disabled_formats_then_returns [OF Info_disabled_at_Error, of env0 "''ready''" "[]"]
    Info_disabled_at_Error
  by blast

text \<open>
  C4, as the spec states it, fails: with the threshold at Error, \<open>Infof "ready"\<close> is
  disabled and yet the call has formatted its message.
\<close>

theorem Infof_disabled_still_formats:
  "\<not> Logger_Enabled (SlogLogger_l (newLogger 1)) (Some Background) LevelInfo
       (snd (New LevelError world0)) \<and>
   formatted (new_events (snd (New LevelError world0))
     (snd (Infof env0 (newLogger 1) ''ready'' [] (snd (New LevelError world0))))) =
     [(''ready'', [])] \<and>
   formatted (new_events (snd (New LevelError world0))
     (snd (Infof env0 (newLogger 1) ''ready'' [] (snd (New LevelError world0))))) \<noteq> []"
  by (simp only: Infof_disabled [OF Info_disabled_at_Error] Info_disabled_at_Error snd_conv
      new_events_emit formatted.simps simp_thms list.simps)

section \<open>The level label\<close>

lemma Level_String_Trace: "Level_String LevelTrace = ''DEBUG+2''"
  by (simp add: Level_String_def str_def Level_defs signed_decimal_def decimal.simps)

text \<open>
  C6. The replacement function turns the level attribute of a record into its label: for
  the Trace level the label is \<open>TRACE\<close>, for every other level it is the label \<open>slog\<close> gives,
  which is \<open>DEBUG\<close>, \<open>INFO\<close>, \<open>WARN\<close> and \<open>ERROR\<close> for the other four named levels. Among the
  built-in attributes of a record only the level attribute is rewritten.
\<close>

theorem ReplaceAttr_level_label:
  "ReplaceAttr groups (Attr LevelKey (LevelAny level)) =
     Inr (Attr LevelKey
       (StringValue (if level = LevelTrace then ''TRACE'' else Level_String level))) \<and>
   Level_String LevelDebug = ''DEBUG'' \<and> Level_String LevelInfo = ''INFO'' \<and>
   Level_String LevelWarn = ''WARN'' \<and> Level_String LevelError = ''ERROR'' \<and>
   appendAttrs ReplaceAttr (builtins h r) =
     Inr (map (\<lambda>a. if Key a = LevelKey
                    then Attr LevelKey (StringValue
                      (if Record_Level r = LevelTrace then ''TRACE''
                       else Level_String (Record_Level r)))
                    else a)
            (builtins h r))"
  by (simp add: ReplaceAttr_def Level_String_def str_def Level_defs builtins_def Key_defs)

section \<open>Errors and panics of an emission\<close>

text \<open>The error the handler returns never reaches the caller: the result does not depend on it.\<close>

lemma log_ignores_write_result:
  "log (e\<lparr>env_stdout := f\<rparr>) l ctx L msg args w = log e l ctx L msg args w"
  by (simp add: log_def JSONHandler_Handle_def Let_def split: sum.splits)

lemma ReplaceAttr_Inr:
  "Key a \<noteq> LevelKey \<or> holds_level a \<Longrightarrow> \<exists>a'. ReplaceAttr groups a = Inr a'"
  by (auto simp add: ReplaceAttr_def holds_level_def Let_def split: Value.splits)

lemma ReplaceAttr_Inl:
  "Key a = LevelKey \<Longrightarrow> \<not> holds_level a \<Longrightarrow> ReplaceAttr groups a = Inl InterfaceConversion"
  by (auto simp add: ReplaceAttr_def holds_level_def Let_def split: Value.splits)

lemma appendAttrs_ReplaceAttr_Inr:
  "list_all (\<lambda>a. Key a \<noteq> LevelKey \<or> holds_level a) xs \<Longrightarrow>
     \<exists>line. appendAttrs ReplaceAttr xs = Inr line"
proof (induction xs)
  case Nil
  then show ?case by simp
next
  case (Cons a xs)
  then obtain a' line where "ReplaceAttr [] a = Inr a'" "appendAttrs ReplaceAttr xs = Inr line"
    using ReplaceAttr_Inr [of a "[]"] by auto
  then show ?case by simp
qed

lemma builtins_hold_level: "list_all (\<lambda>a. Key a \<noteq> LevelKey \<or> holds_level a) (builtins h r)"
  by (simp add: builtins_def Key_defs holds_level_def)

text \<open>
  An emission returns whenever no attribute of the call is keyed \<open>level\<close> without holding a
  level, whatever the write does. This is about the attributes that are modelled: a group
  value, which is not, can hold such an attribute as well.
\<close>

lemma log_Returns:
  assumes "opts_ReplaceAttr (handler_opts (logger_handler (SlogLogger_l l))) = ReplaceAttr"
    and "list_all (\<lambda>a. Key a \<noteq> LevelKey \<or> holds_level a) args"
  shows "fst (log e l ctx L msg args w) = Returns"
proof (cases "Logger_Enabled (SlogLogger_l l) ctx L w")
  case False
  then show ?thesis by (simp add: log_def)
next
  case True
  have "list_all (\<lambda>a. Key a \<noteq> LevelKey \<or> holds_level a) (builtins h r @ args)" for h r
    using assms(2) builtins_hold_level by simp
  then have "\<exists>line. appendAttrs ReplaceAttr (builtins h r @ args) = Inr line" for h r
    by (rule appendAttrs_ReplaceAttr_Inr)
  then obtain line where
    "appendAttrs ReplaceAttr
       (builtins (logger_handler (SlogLogger_l l))
          (Record_Add (NewRecord (env_now e) L msg (env_callers e 4)) args) @ args) = Inr line"
    by blast
  then show ?thesis
    using True assms(1)
    by (simp add: log_def JSONHandler_Handle_def NewRecord_def Record_Add_def Let_def)
qed

text \<open>
  C7 does not hold of the code. With Info enabled, \<open>Info\<close> with an attribute keyed \<open>level\<close>
  whose value is the integer 5 reaches the type assertion of \<open>ReplaceAttr\<close> inside the
  handler's dispatch; the assertion panics, nothing is written, and the panic is the
  outcome of the call.
\<close>

theorem Info_panics_on_level_attribute:
  "Info env0 (newLogger 1) ''m'' [Attr ''level'' (Int64Value 5)] (snd (New LevelInfo world0)) =
     (Panics InterfaceConversion,
      emit (EvHandle Background
              \<lparr>Record_Time = 7, Record_Message = ''m'', Record_Level = LevelInfo,
               Record_PC = 0, Record_attrs = [Attr ''level'' (Int64Value 5)]\<rparr>)
        (emit EvNow (emit (EvCallers 4) (snd (New LevelInfo world0)))))"
proof -
  have rep: "appendAttrs ReplaceAttr (builtins h r @ [Attr ''level'' (Int64Value 5)]) =
      Inl InterfaceConversion" for h r
    by (simp add: builtins_def Key_defs ReplaceAttr_def Let_def split: sum.splits)
  show ?thesis
    using Info_enabled_at_Info
    by (simp add: Info_def Log_def log_def JSONHandler_Handle_def NewRecord_def Record_Add_def
        Let_def rep newLogger_def env0_def)
qed

end
